theory Spec2Isabelle
  imports Main
begin

section \<open>The HIIT timer: data model\<close>

text \<open>
  The interfaces \<open>HIITConfig\<close> and \<open>TimerState\<close> and the string union \<open>TimerPhase\<close>
  of the types module. Every number of the program is a whole number: the form parses
  its fields with \<open>parseInt\<close> and stores \<open>undefined\<close> for \<open>NaN\<close>, and the timer only adds
  and subtracts one. Numbers are therefore modelled as \<open>int\<close>.
\<close>

datatype TimerPhase = Prep | Work | Rest | Cooldown | Complete

record HIITConfig =
  prep :: int
  sets :: int
  work :: int
  rest :: int
  cooldown :: int

record TimerState =
  phase :: TimerPhase
  currentSet :: int
  timeRemaining :: int
  totalTime :: int
  isPaused :: bool
  config :: HIITConfig

text \<open>
  \<open>Partial<HIITConfig>\<close>, the form's state: every field may be \<open>undefined\<close>.
\<close>

record PartialConfig =
  opt_prep :: "int option"
  opt_sets :: "int option"
  opt_work :: "int option"
  opt_rest :: "int option"
  opt_cooldown :: "int option"

definition MIN_TIME :: int where
  "MIN_TIME = 1"

definition MAX_TIME :: int where
  "MAX_TIME = 3600"

section \<open>Validation\<close>

text \<open>
  Template literals print a number in decimal; \<open>numToString\<close> is JavaScript's
  \<open>Number.prototype.toString\<close> on whole numbers.
\<close>

fun decimal :: "nat \<Rightarrow> string" where
  "decimal n =
     (if n < 10 then [''0123456789'' ! n]
      else decimal (n div 10) @ [''0123456789'' ! (n mod 10)])"

definition numToString :: "int \<Rightarrow> string" where
  "numToString i = (if i < 0 then CHR ''-'' # decimal (nat (- i)) else decimal (nat i))"

text \<open>
  \<open>validateConfig\<close> returns the message of the first failing check, or \<open>null\<close>
  (here \<open>None\<close>). \<open>!config.prep\<close> holds when the field is \<open>undefined\<close> or zero; the
  comparisons after it are only reached for a number.
\<close>

definition validateConfig :: "PartialConfig \<Rightarrow> string option" where
  "validateConfig cfg =
     (if (case opt_prep cfg of None \<Rightarrow> True
          | Some p \<Rightarrow> p = 0 \<or> p < MIN_TIME \<or> p > MAX_TIME)
      then Some (''Prep must be between '' @ numToString MIN_TIME @ ''s and ''
                 @ numToString MAX_TIME @ ''s (60 minutes)'')
      else if (case opt_sets cfg of None \<Rightarrow> True | Some n \<Rightarrow> n = 0 \<or> n < 1)
      then Some ''Sets must be at least 1''
      else if (case opt_work cfg of None \<Rightarrow> True
               | Some w \<Rightarrow> w = 0 \<or> w < MIN_TIME \<or> w > MAX_TIME)
      then Some (''Work must be between '' @ numToString MIN_TIME @ ''s and ''
                 @ numToString MAX_TIME @ ''s (60 minutes)'')
      else if (case opt_rest cfg of None \<Rightarrow> True
               | Some r \<Rightarrow> r = 0 \<or> r < MIN_TIME \<or> r > MAX_TIME)
      then Some (''Rest must be between '' @ numToString MIN_TIME @ ''s and ''
                 @ numToString MAX_TIME @ ''s (60 minutes)'')
      else if (case opt_cooldown cfg of None \<Rightarrow> False
               | Some c \<Rightarrow> c < 0 \<or> c > MAX_TIME)
      then Some (''Cooldown must be between 0s and '' @ numToString MAX_TIME
                 @ ''s (60 minutes)'')
      else None)"

section \<open>Phase sequencing\<close>

definition initializeTimerState :: "HIITConfig \<Rightarrow> bool \<Rightarrow> TimerState" where
  "initializeTimerState cfg autoStart =
     \<lparr>phase = Prep, currentSet = 1, timeRemaining = prep cfg, totalTime = prep cfg,
      isPaused = (\<not> autoStart), config = cfg\<rparr>"

definition getNextPhase :: "TimerState \<Rightarrow> TimerPhase" where
  "getNextPhase state =
     (case phase state of
        Prep \<Rightarrow> Work
      | Work \<Rightarrow>
          (if currentSet state < sets (config state) then Rest
           else if cooldown (config state) > 0 then Cooldown
           else Complete)
      | Rest \<Rightarrow> Work
      | Cooldown \<Rightarrow> Complete
      | Complete \<Rightarrow> Complete)"

definition getPhaseDuration :: "TimerPhase \<Rightarrow> TimerState \<Rightarrow> int" where
  "getPhaseDuration ph state =
     (case ph of
        Prep \<Rightarrow> prep (config state)
      | Work \<Rightarrow> work (config state)
      | Rest \<Rightarrow> rest (config state)
      | Cooldown \<Rightarrow> cooldown (config state)
      | Complete \<Rightarrow> 0)"

section \<open>The timer engine\<close>

text \<open>
  The component holds \<open>timerState : TimerState | null\<close>. Every functional update has the
  shape \<open>prev ? f(prev) : null\<close>; \<open>setTimerState\<close> is that lifting, and the functions below
  are the bodies \<open>f\<close> on a timer that exists.
\<close>

definition setTimerState ::
  "(TimerState \<Rightarrow> TimerState) \<Rightarrow> TimerState option \<Rightarrow> TimerState option" where
  "setTimerState f prev = (case prev of None \<Rightarrow> None | Some p \<Rightarrow> Some (f p))"

text \<open>The callback that \<open>setInterval\<close> runs once a second.\<close>

definition tickUpdater :: "TimerState \<Rightarrow> TimerState" where
  "tickUpdater prev =
     (if timeRemaining prev \<le> 1 then
        (let nextPhase = getNextPhase prev in
         if nextPhase = Complete then
           prev\<lparr>phase := Complete, timeRemaining := 0, isPaused := True\<rparr>
         else if nextPhase = Work \<and> phase prev = Rest then
           prev\<lparr>phase := Work, currentSet := currentSet prev + 1,
                timeRemaining := work (config prev), totalTime := work (config prev)\<rparr>
         else
           (let duration = getPhaseDuration nextPhase prev in
            prev\<lparr>phase := nextPhase, timeRemaining := duration, totalTime := duration\<rparr>))
      else prev\<lparr>timeRemaining := timeRemaining prev - 1\<rparr>)"

text \<open>
  The interval effect clears the interval, and installs none, while the timer is paused
  or complete: a tick reaches the state only through this guard.
\<close>

definition tick :: "TimerState \<Rightarrow> TimerState" where
  "tick s = (if isPaused s \<or> phase s = Complete then s else tickUpdater s)"

definition handlePause :: "TimerState \<Rightarrow> TimerState" where
  "handlePause prev = prev\<lparr>isPaused := True\<rparr>"

definition handlePlay :: "TimerState \<Rightarrow> TimerState" where
  "handlePlay prev = prev\<lparr>isPaused := False\<rparr>"

definition handleRestart :: "TimerState \<Rightarrow> TimerState" where
  "handleRestart timerState =
     (let fullConfig =
        \<lparr>prep = prep (config timerState), sets = sets (config timerState),
         work = work (config timerState), rest = rest (config timerState),
         cooldown = cooldown (config timerState)\<rparr>
      in initializeTimerState fullConfig True)"

definition handleSkipSet :: "TimerState \<Rightarrow> TimerState" where
  "handleSkipSet prev =
     (let nextPhase = getNextPhase prev in
      if nextPhase = Complete then
        prev\<lparr>phase := Complete, timeRemaining := 0, isPaused := True\<rparr>
      else
        (let duration = getPhaseDuration nextPhase prev;
             newSet = (if nextPhase = Work \<and> phase prev = Rest
                       then currentSet prev + 1 else currentSet prev)
         in prev\<lparr>phase := nextPhase, currentSet := newSet,
                 timeRemaining := duration, totalTime := duration\<rparr>))"

text \<open>
  \<open>handleStart\<close>: the validation message goes to the error state (\<open>Inl\<close>); otherwise
  the full configuration is built, an absent or zero cooldown becoming \<open>0\<close>
  (\<open>config.cooldown || 0\<close>), and the timer starts running. The non-null assertions
  \<open>config.prep!\<close> are reached only after \<open>validateConfig\<close> found the field present;
  a missing field is written as \<open>0\<close> there.
\<close>

definition handleStart :: "PartialConfig \<Rightarrow> string + TimerState" where
  "handleStart cfg =
     (case validateConfig cfg of
        Some validationError \<Rightarrow> Inl validationError
      | None \<Rightarrow>
          Inr (initializeTimerState
                 \<lparr>prep = (case opt_prep cfg of Some p \<Rightarrow> p | None \<Rightarrow> 0),
                  sets = (case opt_sets cfg of Some n \<Rightarrow> n | None \<Rightarrow> 0),
                  work = (case opt_work cfg of Some w \<Rightarrow> w | None \<Rightarrow> 0),
                  rest = (case opt_rest cfg of Some r \<Rightarrow> r | None \<Rightarrow> 0),
                  cooldown = (case opt_cooldown cfg of
                                Some c \<Rightarrow> (if c = 0 then 0 else c) | None \<Rightarrow> 0)\<rparr>
                 True))"

section \<open>Runs\<close>

text \<open>\<open>ticks n\<close> delivers \<open>n\<close> ticks, one after the other.\<close>

fun ticks :: "nat \<Rightarrow> TimerState \<Rightarrow> TimerState" where
  "ticks 0 s = s"
| "ticks (Suc n) s = ticks n (tick s)"

text \<open>The control operations, and a run of them from a given state.\<close>

datatype Operation = Tick | Pause | Resume | Skip | Restart

fun applyOp :: "Operation \<Rightarrow> TimerState \<Rightarrow> TimerState" where
  "applyOp Tick s = tick s"
| "applyOp Pause s = handlePause s"
| "applyOp Resume s = handlePlay s"
| "applyOp Skip s = handleSkipSet s"
| "applyOp Restart s = handleRestart s"

fun exec :: "Operation list \<Rightarrow> TimerState \<Rightarrow> TimerState" where
  "exec [] s = s"
| "exec (op # ops) s = exec ops (applyOp op s)"

text \<open>
  A configuration that \<open>validateConfig\<close> accepts: the bounds of its five checks.
\<close>

definition validConfig :: "HIITConfig \<Rightarrow> bool" where
  "validConfig c \<longleftrightarrow>
     MIN_TIME \<le> prep c \<and> prep c \<le> MAX_TIME \<and> 1 \<le> sets c \<and>
     MIN_TIME \<le> work c \<and> work c \<le> MAX_TIME \<and>
     MIN_TIME \<le> rest c \<and> rest c \<le> MAX_TIME \<and>
     0 \<le> cooldown c \<and> cooldown c \<le> MAX_TIME"

section \<open>Measures and invariants of a run\<close>

text \<open>
  The length of a workout in seconds: the preparation, every work interval, the rests
  between them, and the cooldown.
\<close>

definition totalTicks :: "HIITConfig \<Rightarrow> int" where
  "totalTicks c = prep c + sets c * work c + (sets c - 1) * rest c + cooldown c"

text \<open>
  The seconds a state still has before it: the rest of the current phase and all phases
  after it. With \<open>k\<close> sets still to come after the current one, a work phase is followed
  by \<open>k\<close> rests and \<open>k\<close> work intervals, a rest phase by \<open>k\<close> work intervals and
  \<open>k - 1\<close> rests.
\<close>

definition remaining :: "TimerState \<Rightarrow> int" where
  "remaining s =
     (let c = config s; k = sets c - currentSet s in
      case phase s of
        Prep \<Rightarrow> timeRemaining s + sets c * work c + (sets c - 1) * rest c + cooldown c
      | Work \<Rightarrow> timeRemaining s + k * (rest c + work c) + cooldown c
      | Rest \<Rightarrow> timeRemaining s + k * work c + (k - 1) * rest c + cooldown c
      | Cooldown \<Rightarrow> timeRemaining s
      | Complete \<Rightarrow> 0)"

text \<open>
  What every state of a started timer satisfies: the set counter stays within the
  configured sets, a rest is never the last phase of the sets, and a phase that is not
  over has time left.
\<close>

definition wellFormed :: "TimerState \<Rightarrow> bool" where
  "wellFormed s \<longleftrightarrow>
     validConfig (config s) \<and> 1 \<le> currentSet s \<and> currentSet s \<le> sets (config s) \<and>
     (phase s = Prep \<longrightarrow> currentSet s = 1) \<and>
     (phase s = Rest \<longrightarrow> currentSet s < sets (config s)) \<and>
     (phase s = Cooldown \<or> phase s = Complete \<longrightarrow> currentSet s = sets (config s)) \<and>
     (phase s = Complete \<longrightarrow> timeRemaining s = 0) \<and>
     (phase s \<noteq> Complete \<longrightarrow> 1 \<le> timeRemaining s)"

definition running :: "TimerState \<Rightarrow> bool" where
  "running s \<longleftrightarrow> wellFormed s \<and> (phase s \<noteq> Complete \<longrightarrow> \<not> isPaused s)"

text \<open>How many of the next \<open>n\<close> ticks change \<open>currentSet\<close>.\<close>

fun setIncrements :: "nat \<Rightarrow> TimerState \<Rightarrow> nat" where
  "setIncrements 0 s = 0"
| "setIncrements (Suc n) s =
     (if currentSet (tick s) \<noteq> currentSet s then 1 else 0) + setIncrements n (tick s)"

text \<open>
  A run in which the play button is never pressed on a completed timer. The component
  renders the control bar only while \<open>isActive\<close>, that is while the phase is not
  \<open>complete\<close>.
\<close>

fun resumeGated :: "Operation list \<Rightarrow> TimerState \<Rightarrow> bool" where
  "resumeGated [] s = True"
| "resumeGated (op # ops) s =
     ((op = Resume \<longrightarrow> phase s \<noteq> Complete) \<and> resumeGated ops (applyOp op s))"

section \<open>The operations as the component offers them\<close>

text \<open>
  The handlers are wired to the buttons of \<open>ControlBar\<close>, and the component renders
  that bar only on the active screen, that is while \<open>isActive\<close>: a timer exists and its
  phase is not \<open>complete\<close>. The middle button calls \<open>onPlay\<close> while the timer is paused
  and \<open>onPause\<close> while it runs. An operation requested when its button is not there
  leaves the state as it is, as a tick does when no interval is installed.
\<close>

definition isActive :: "TimerState \<Rightarrow> bool" where
  "isActive timerState \<longleftrightarrow> phase timerState \<noteq> Complete"

definition pause :: "TimerState \<Rightarrow> TimerState" where
  "pause s = (if isActive s \<and> \<not> isPaused s then handlePause s else s)"

definition resume :: "TimerState \<Rightarrow> TimerState" where
  "resume s = (if isActive s \<and> isPaused s then handlePlay s else s)"

definition skip :: "TimerState \<Rightarrow> TimerState" where
  "skip s = (if isActive s then handleSkipSet s else s)"

definition restart :: "TimerState \<Rightarrow> TimerState" where
  "restart s = (if isActive s then handleRestart s else s)"

fun perform :: "Operation \<Rightarrow> TimerState \<Rightarrow> TimerState" where
  "perform Tick s = tick s"
| "perform Pause s = pause s"
| "perform Resume s = resume s"
| "perform Skip s = skip s"
| "perform Restart s = restart s"

fun runOps :: "Operation list \<Rightarrow> TimerState \<Rightarrow> TimerState" where
  "runOps [] s = s"
| "runOps (op # ops) s = runOps ops (perform op s)"

section \<open>Pausing\<close>

lemma tick_paused [simp]: "isPaused s \<Longrightarrow> tick s = s"
  by (simp add: tick_def)

lemma tick_complete [simp]: "phase s = Complete \<Longrightarrow> tick s = s"
  by (simp add: tick_def)

lemma ticks_paused: "isPaused s \<Longrightarrow> ticks n s = s"
  by (induction n) simp_all

text \<open>
  C2: a tick leaves a paused state and a completed state as they are. Hence pausing,
  letting any number of ticks arrive and resuming gives back the state before the pause,
  running: every field but \<open>isPaused\<close> is the one before the pause.
\<close>

theorem tick_noop_paused_or_complete:
  "(isPaused s \<or> phase s = Complete \<longrightarrow> tick s = s) \<and>
   handlePlay (ticks n (handlePause s)) = s\<lparr>isPaused := False\<rparr> \<and>
   (handlePlay (ticks n (handlePause s)))\<lparr>isPaused := isPaused s\<rparr> = s"
proof -
  have "ticks n (handlePause s) = handlePause s"
    by (rule ticks_paused) (simp add: handlePause_def)
  then show ?thesis
    by (auto simp: handlePlay_def handlePause_def)
qed

theorem tick_noop_paused_or_complete_witness:
  "tick \<lparr>phase = Work, currentSet = 1, timeRemaining = 1, totalTime = 20, isPaused = True,
         config = \<lparr>prep = 10, sets = 2, work = 20, rest = 10, cooldown = 0\<rparr>\<rparr>
   = \<lparr>phase = Work, currentSet = 1, timeRemaining = 1, totalTime = 20, isPaused = True,
      config = \<lparr>prep = 10, sets = 2, work = 20, rest = 10, cooldown = 0\<rparr>\<rparr> \<and>
   tick \<lparr>phase = Complete, currentSet = 2, timeRemaining = 0, totalTime = 20,
         isPaused = False,
         config = \<lparr>prep = 10, sets = 2, work = 20, rest = 10, cooldown = 0\<rparr>\<rparr>
   = \<lparr>phase = Complete, currentSet = 2, timeRemaining = 0, totalTime = 20,
      isPaused = False,
      config = \<lparr>prep = 10, sets = 2, work = 20, rest = 10, cooldown = 0\<rparr>\<rparr> \<and>
   handlePlay (ticks 3 (handlePause
     \<lparr>phase = Work, currentSet = 1, timeRemaining = 1, totalTime = 20, isPaused = False,
      config = \<lparr>prep = 10, sets = 2, work = 20, rest = 10, cooldown = 0\<rparr>\<rparr>))
   = \<lparr>phase = Work, currentSet = 1, timeRemaining = 1, totalTime = 20, isPaused = False,
      config = \<lparr>prep = 10, sets = 2, work = 20, rest = 10, cooldown = 0\<rparr>\<rparr>"
  using tick_noop_paused_or_complete
    [of "\<lparr>phase = Work, currentSet = 1, timeRemaining = 1, totalTime = 20,
          isPaused = True,
          config = \<lparr>prep = 10, sets = 2, work = 20, rest = 10, cooldown = 0\<rparr>\<rparr>" 3]
    tick_noop_paused_or_complete
    [of "\<lparr>phase = Complete, currentSet = 2, timeRemaining = 0, totalTime = 20,
          isPaused = False,
          config = \<lparr>prep = 10, sets = 2, work = 20, rest = 10, cooldown = 0\<rparr>\<rparr>" 3]
    tick_noop_paused_or_complete
    [of "\<lparr>phase = Work, currentSet = 1, timeRemaining = 1, totalTime = 20,
          isPaused = False,
          config = \<lparr>prep = 10, sets = 2, work = 20, rest = 10, cooldown = 0\<rparr>\<rparr>" 3]
  by simp

text \<open>
  C4: resuming clears \<open>isPaused\<close> and changes nothing else; it leaves a state that is
  not paused as it is, and it leaves a completed state as it is.
\<close>

theorem resume_unpauses_or_noop:
  "(phase s \<noteq> Complete \<longrightarrow> resume s = s\<lparr>isPaused := False\<rparr> \<and> \<not> isPaused (resume s)) \<and>
   (\<not> isPaused s \<longrightarrow> resume s = s) \<and>
   (phase s = Complete \<longrightarrow> resume s = s)"
proof -
  have "s\<lparr>isPaused := False\<rparr> = s" if "\<not> isPaused s"
    using that by (cases s) auto
  then show ?thesis
    by (auto simp: resume_def isActive_def handlePlay_def)
qed

theorem resume_unpauses_or_noop_witness:
  "resume
     \<lparr>phase = Rest, currentSet = 1, timeRemaining = 4, totalTime = 10, isPaused = True,
      config = \<lparr>prep = 10, sets = 2, work = 20, rest = 10, cooldown = 0\<rparr>\<rparr>
   = \<lparr>phase = Rest, currentSet = 1, timeRemaining = 4, totalTime = 10, isPaused = False,
      config = \<lparr>prep = 10, sets = 2, work = 20, rest = 10, cooldown = 0\<rparr>\<rparr> \<and>
   resume
     \<lparr>phase = Rest, currentSet = 1, timeRemaining = 4, totalTime = 10, isPaused = False,
      config = \<lparr>prep = 10, sets = 2, work = 20, rest = 10, cooldown = 0\<rparr>\<rparr>
   = \<lparr>phase = Rest, currentSet = 1, timeRemaining = 4, totalTime = 10, isPaused = False,
      config = \<lparr>prep = 10, sets = 2, work = 20, rest = 10, cooldown = 0\<rparr>\<rparr> \<and>
   resume
     \<lparr>phase = Complete, currentSet = 2, timeRemaining = 0, totalTime = 20, isPaused = True,
      config = \<lparr>prep = 10, sets = 2, work = 20, rest = 10, cooldown = 0\<rparr>\<rparr>
   = \<lparr>phase = Complete, currentSet = 2, timeRemaining = 0, totalTime = 20, isPaused = True,
      config = \<lparr>prep = 10, sets = 2, work = 20, rest = 10, cooldown = 0\<rparr>\<rparr>"
proof -
  let ?c = "\<lparr>prep = 10, sets = 2, work = 20, rest = 10, cooldown = 0\<rparr>"
  let ?p = "\<lparr>phase = Rest, currentSet = 1, timeRemaining = 4, totalTime = 10,
             isPaused = True, config = ?c\<rparr>"
  let ?u = "\<lparr>phase = Rest, currentSet = 1, timeRemaining = 4, totalTime = 10,
             isPaused = False, config = ?c\<rparr>"
  let ?d = "\<lparr>phase = Complete, currentSet = 2, timeRemaining = 0, totalTime = 20,
             isPaused = True, config = ?c\<rparr>"
  have hp: "phase ?p \<noteq> Complete" and hu: "\<not> isPaused ?u" and hd: "phase ?d = Complete"
    by simp_all
  from resume_unpauses_or_noop [of ?p] hp have "resume ?p = ?p\<lparr>isPaused := False\<rparr>"
    by blast
  then have 1: "resume ?p = ?u" by simp
  from resume_unpauses_or_noop [of ?u] hu have 2: "resume ?u = ?u" by blast
  from resume_unpauses_or_noop [of ?d] hd have 3: "resume ?d = ?d" by blast
  from 1 2 3 show ?thesis by blast
qed

section \<open>The phase sequencer\<close>

text \<open>
  C5: the next phase, row by row. Preparation is followed by work; work by rest while
  sets remain, by the cooldown after the last set when one is configured, by completion
  otherwise; rest by work; the cooldown by completion; completion by itself.
\<close>

theorem getNextPhase_table:
  "(phase s = Prep \<longrightarrow> getNextPhase s = Work) \<and>
   (phase s = Work \<and> currentSet s < sets (config s) \<longrightarrow> getNextPhase s = Rest) \<and>
   (phase s = Work \<and> currentSet s = sets (config s) \<and> cooldown (config s) > 0
      \<longrightarrow> getNextPhase s = Cooldown) \<and>
   (phase s = Work \<and> currentSet s = sets (config s) \<and> cooldown (config s) = 0
      \<longrightarrow> getNextPhase s = Complete) \<and>
   (phase s = Rest \<longrightarrow> getNextPhase s = Work) \<and>
   (phase s = Cooldown \<longrightarrow> getNextPhase s = Complete) \<and>
   (phase s = Complete \<longrightarrow> getNextPhase s = Complete)"
  by (simp add: getNextPhase_def)

theorem getNextPhase_table_witness:
  "getNextPhase \<lparr>phase = Prep, currentSet = 1, timeRemaining = 1, totalTime = 10,
      isPaused = False,
      config = \<lparr>prep = 10, sets = 2, work = 20, rest = 10, cooldown = 0\<rparr>\<rparr> = Work \<and>
   getNextPhase \<lparr>phase = Work, currentSet = 1, timeRemaining = 1, totalTime = 20,
      isPaused = False,
      config = \<lparr>prep = 10, sets = 2, work = 20, rest = 10, cooldown = 0\<rparr>\<rparr> = Rest \<and>
   getNextPhase \<lparr>phase = Work, currentSet = 2, timeRemaining = 1, totalTime = 20,
      isPaused = False,
      config = \<lparr>prep = 10, sets = 2, work = 20, rest = 10, cooldown = 60\<rparr>\<rparr> = Cooldown \<and>
   getNextPhase \<lparr>phase = Work, currentSet = 2, timeRemaining = 1, totalTime = 20,
      isPaused = False,
      config = \<lparr>prep = 10, sets = 2, work = 20, rest = 10, cooldown = 0\<rparr>\<rparr> = Complete \<and>
   getNextPhase \<lparr>phase = Rest, currentSet = 1, timeRemaining = 1, totalTime = 10,
      isPaused = False,
      config = \<lparr>prep = 10, sets = 2, work = 20, rest = 10, cooldown = 0\<rparr>\<rparr> = Work \<and>
   getNextPhase \<lparr>phase = Cooldown, currentSet = 2, timeRemaining = 1, totalTime = 60,
      isPaused = False,
      config = \<lparr>prep = 10, sets = 2, work = 20, rest = 10, cooldown = 60\<rparr>\<rparr> = Complete \<and>
   getNextPhase \<lparr>phase = Complete, currentSet = 2, timeRemaining = 0, totalTime = 20,
      isPaused = True,
      config = \<lparr>prep = 10, sets = 2, work = 20, rest = 10, cooldown = 0\<rparr>\<rparr> = Complete"
  using
    getNextPhase_table [of "\<lparr>phase = Prep, currentSet = 1, timeRemaining = 1,
      totalTime = 10, isPaused = False,
      config = \<lparr>prep = 10, sets = 2, work = 20, rest = 10, cooldown = 0\<rparr>\<rparr>"]
    getNextPhase_table [of "\<lparr>phase = Work, currentSet = 1, timeRemaining = 1,
      totalTime = 20, isPaused = False,
      config = \<lparr>prep = 10, sets = 2, work = 20, rest = 10, cooldown = 0\<rparr>\<rparr>"]
    getNextPhase_table [of "\<lparr>phase = Work, currentSet = 2, timeRemaining = 1,
      totalTime = 20, isPaused = False,
      config = \<lparr>prep = 10, sets = 2, work = 20, rest = 10, cooldown = 60\<rparr>\<rparr>"]
    getNextPhase_table [of "\<lparr>phase = Work, currentSet = 2, timeRemaining = 1,
      totalTime = 20, isPaused = False,
      config = \<lparr>prep = 10, sets = 2, work = 20, rest = 10, cooldown = 0\<rparr>\<rparr>"]
    getNextPhase_table [of "\<lparr>phase = Rest, currentSet = 1, timeRemaining = 1,
      totalTime = 10, isPaused = False,
      config = \<lparr>prep = 10, sets = 2, work = 20, rest = 10, cooldown = 0\<rparr>\<rparr>"]
    getNextPhase_table [of "\<lparr>phase = Cooldown, currentSet = 2, timeRemaining = 1,
      totalTime = 60, isPaused = False,
      config = \<lparr>prep = 10, sets = 2, work = 20, rest = 10, cooldown = 60\<rparr>\<rparr>"]
    getNextPhase_table [of "\<lparr>phase = Complete, currentSet = 2, timeRemaining = 0,
      totalTime = 20, isPaused = True,
      config = \<lparr>prep = 10, sets = 2, work = 20, rest = 10, cooldown = 0\<rparr>\<rparr>"]
  by simp

section \<open>Skipping\<close>

text \<open>
  C10: on a completed state (phase \<open>Complete\<close>, no time remaining, paused) the skip
  handler returns its input unchanged.
\<close>

theorem skip_complete_identity:
  "phase s = Complete \<Longrightarrow> timeRemaining s = 0 \<Longrightarrow> isPaused s \<Longrightarrow> handleSkipSet s = s"
  by (simp add: handleSkipSet_def getNextPhase_def)

theorem skip_complete_identity_witness:
  "handleSkipSet
     \<lparr>phase = Complete, currentSet = 2, timeRemaining = 0, totalTime = 20, isPaused = True,
      config = \<lparr>prep = 10, sets = 2, work = 20, rest = 10, cooldown = 0\<rparr>\<rparr>
   = \<lparr>phase = Complete, currentSet = 2, timeRemaining = 0, totalTime = 20, isPaused = True,
      config = \<lparr>prep = 10, sets = 2, work = 20, rest = 10, cooldown = 0\<rparr>\<rparr>"
  using skip_complete_identity
    [of "\<lparr>phase = Complete, currentSet = 2, timeRemaining = 0, totalTime = 20,
          isPaused = True,
          config = \<lparr>prep = 10, sets = 2, work = 20, rest = 10, cooldown = 0\<rparr>\<rparr>"]
  by simp

lemma skip_eq_boundary: "timeRemaining s \<le> 1 \<Longrightarrow> handleSkipSet s = tickUpdater s"
  by (cases "phase s")
     (simp_all add: handleSkipSet_def tickUpdater_def getNextPhase_def getPhaseDuration_def
        Let_def)

lemma skip_from_rest:
  "phase s = Rest \<Longrightarrow>
     phase (handleSkipSet s) = Work \<and> currentSet (handleSkipSet s) = currentSet s + 1"
  by (simp add: handleSkipSet_def getNextPhase_def Let_def)

lemma skip_forces_boundary: "handleSkipSet s = tickUpdater (s\<lparr>timeRemaining := 0\<rparr>)"
  by (cases "phase s")
     (simp_all add: handleSkipSet_def tickUpdater_def getNextPhase_def getPhaseDuration_def
        Let_def)

text \<open>
  C7: on every state that is not paused and has at most one second left, a skip and a
  tick give equal states. The skip handler is the boundary branch of the interval
  callback: it computes what the callback computes once the time is up, on every state,
  and so agrees with the callback whenever at most one second remains, paused or not,
  and with a tick on every state that is running and satisfies the completion
  invariant. From a rest the skip goes to work and raises the set counter by one, as the
  boundary tick does.
\<close>

theorem skip_matches_boundary_tick:
  "(\<not> isPaused s \<and> timeRemaining s \<le> 1 \<longrightarrow> skip s = tick s) \<and>
   ((phase s = Complete \<longrightarrow> isPaused s) \<and> \<not> isPaused s \<and> timeRemaining s \<le> 1
      \<longrightarrow> handleSkipSet s = tick s) \<and>
   (timeRemaining s \<le> 1 \<longrightarrow> handleSkipSet s = tickUpdater s) \<and>
   handleSkipSet s = tickUpdater (s\<lparr>timeRemaining := 0\<rparr>) \<and>
   (phase s = Rest \<longrightarrow>
      skip s = handleSkipSet s \<and> phase (skip s) = Work \<and>
      currentSet (skip s) = currentSet s + 1) \<and>
   (phase s = Rest \<and> \<not> isPaused s \<and> timeRemaining s \<le> 1 \<longrightarrow>
      phase (tick s) = Work \<and> currentSet (tick s) = currentSet s + 1)"
proof -
  have a: "\<not> isPaused s \<and> timeRemaining s \<le> 1 \<longrightarrow> skip s = tick s"
    by (simp add: skip_def isActive_def tick_def skip_eq_boundary)
  have b: "(phase s = Complete \<longrightarrow> isPaused s) \<and> \<not> isPaused s \<and> timeRemaining s \<le> 1
      \<longrightarrow> handleSkipSet s = tick s"
    by (auto simp: skip_eq_boundary tick_def)
  have c: "timeRemaining s \<le> 1 \<longrightarrow> handleSkipSet s = tickUpdater s"
    by (simp add: skip_eq_boundary)
  have d: "handleSkipSet s = tickUpdater (s\<lparr>timeRemaining := 0\<rparr>)"
    by (rule skip_forces_boundary)
  have e: "phase s = Rest \<longrightarrow>
      skip s = handleSkipSet s \<and> phase (skip s) = Work \<and>
      currentSet (skip s) = currentSet s + 1"
    by (simp add: skip_def isActive_def skip_from_rest)
  have f: "phase s = Rest \<and> \<not> isPaused s \<and> timeRemaining s \<le> 1 \<longrightarrow>
      phase (tick s) = Work \<and> currentSet (tick s) = currentSet s + 1"
    using a e by auto
  from a b c d e f show ?thesis by blast
qed

theorem skip_matches_boundary_tick_witness:
  "skip
     \<lparr>phase = Rest, currentSet = 1, timeRemaining = 1, totalTime = 10, isPaused = False,
      config = \<lparr>prep = 10, sets = 2, work = 20, rest = 10, cooldown = 0\<rparr>\<rparr>
   = tick
     \<lparr>phase = Rest, currentSet = 1, timeRemaining = 1, totalTime = 10, isPaused = False,
      config = \<lparr>prep = 10, sets = 2, work = 20, rest = 10, cooldown = 0\<rparr>\<rparr> \<and>
   handleSkipSet
     \<lparr>phase = Rest, currentSet = 1, timeRemaining = 1, totalTime = 10, isPaused = False,
      config = \<lparr>prep = 10, sets = 2, work = 20, rest = 10, cooldown = 0\<rparr>\<rparr>
   = tick
     \<lparr>phase = Rest, currentSet = 1, timeRemaining = 1, totalTime = 10, isPaused = False,
      config = \<lparr>prep = 10, sets = 2, work = 20, rest = 10, cooldown = 0\<rparr>\<rparr> \<and>
   phase (tick
     \<lparr>phase = Rest, currentSet = 1, timeRemaining = 1, totalTime = 10, isPaused = False,
      config = \<lparr>prep = 10, sets = 2, work = 20, rest = 10, cooldown = 0\<rparr>\<rparr>) = Work \<and>
   currentSet (skip
     \<lparr>phase = Rest, currentSet = 1, timeRemaining = 1, totalTime = 10, isPaused = False,
      config = \<lparr>prep = 10, sets = 2, work = 20, rest = 10, cooldown = 0\<rparr>\<rparr>) = 2 \<and>
   skip
     \<lparr>phase = Complete, currentSet = 2, timeRemaining = 0, totalTime = 20,
      isPaused = False,
      config = \<lparr>prep = 10, sets = 2, work = 20, rest = 10, cooldown = 0\<rparr>\<rparr>
   = tick
     \<lparr>phase = Complete, currentSet = 2, timeRemaining = 0, totalTime = 20,
      isPaused = False,
      config = \<lparr>prep = 10, sets = 2, work = 20, rest = 10, cooldown = 0\<rparr>\<rparr>"
proof -
  let ?c = "\<lparr>prep = 10, sets = 2, work = 20, rest = 10, cooldown = 0\<rparr>"
  let ?s = "\<lparr>phase = Rest, currentSet = 1, timeRemaining = 1, totalTime = 10,
             isPaused = False, config = ?c\<rparr>"
  let ?d = "\<lparr>phase = Complete, currentSet = 2, timeRemaining = 0, totalTime = 20,
             isPaused = False, config = ?c\<rparr>"
  have boundary: "\<not> isPaused ?s \<and> timeRemaining ?s \<le> 1"
    and inv: "phase ?s = Complete \<longrightarrow> isPaused ?s"
    and resting: "phase ?s = Rest"
    and over: "\<not> isPaused ?d \<and> timeRemaining ?d \<le> 1"
    by simp_all
  from skip_matches_boundary_tick [of ?s] boundary inv resting
  have "skip ?s = tick ?s" and "handleSkipSet ?s = tick ?s" and "phase (tick ?s) = Work"
    and "currentSet (skip ?s) = currentSet ?s + 1"
    by blast+
  moreover from skip_matches_boundary_tick [of ?d] over have "skip ?d = tick ?d"
    by blast
  ultimately show ?thesis by simp
qed

section \<open>An unpaused run\<close>

lemma wellFormed_start: "validConfig c \<Longrightarrow> wellFormed (initializeTimerState c b)"
  by (simp add: wellFormed_def initializeTimerState_def validConfig_def MIN_TIME_def)

lemma remaining_start: "remaining (initializeTimerState c b) = totalTicks c"
  by (simp add: remaining_def initializeTimerState_def totalTicks_def)

lemma wellFormed_tickUpdater:
  "wellFormed s \<Longrightarrow> phase s \<noteq> Complete \<Longrightarrow> wellFormed (tickUpdater s)"
  by (cases "phase s")
     (auto simp: wellFormed_def tickUpdater_def getNextPhase_def getPhaseDuration_def
        validConfig_def MIN_TIME_def Let_def)

lemma remaining_tickUpdater:
  "wellFormed s \<Longrightarrow> phase s \<noteq> Complete \<Longrightarrow> remaining (tickUpdater s) = remaining s - 1"
  by (cases "phase s")
     (auto simp: wellFormed_def tickUpdater_def getNextPhase_def getPhaseDuration_def
        remaining_def validConfig_def Let_def algebra_simps)

lemma remaining_pos:
  assumes "wellFormed s" and "phase s \<noteq> Complete"
  shows "1 \<le> remaining s"
proof -
  let ?c = "config s"
  let ?k = "sets ?c - currentSet s"
  from assms have t: "1 \<le> timeRemaining s" and k: "0 \<le> ?k"
    and w: "0 \<le> work ?c" and r: "0 \<le> rest ?c" and cd: "0 \<le> cooldown ?c"
    and n: "0 \<le> sets ?c" "0 \<le> sets ?c - 1"
    and rk: "phase s = Rest \<Longrightarrow> 0 \<le> ?k - 1"
    by (auto simp: wellFormed_def validConfig_def MIN_TIME_def)
  have p1: "0 \<le> sets ?c * work ?c" "0 \<le> (sets ?c - 1) * rest ?c"
    "0 \<le> ?k * (rest ?c + work ?c)" "0 \<le> ?k * work ?c"
    using k w r n by simp_all
  have p2: "phase s = Rest \<Longrightarrow> 0 \<le> (?k - 1) * rest ?c"
    using rk r by simp
  show ?thesis
    using t cd p1 p2 assms(2) by (cases "phase s") (simp_all add: remaining_def Let_def)
qed

lemma remaining_complete: "phase s = Complete \<Longrightarrow> remaining s = 0"
  by (simp add: remaining_def)

lemma running_tick:
  assumes "running s" and "phase s \<noteq> Complete"
  shows "running (tick s) \<and> remaining (tick s) = remaining s - 1"
proof -
  from assms have np: "\<not> isPaused s" and wf: "wellFormed s"
    by (simp_all add: running_def)
  then have t: "tick s = tickUpdater s" using assms(2) by (simp add: tick_def)
  have "isPaused (tickUpdater s) \<longrightarrow> phase (tickUpdater s) = Complete"
    using np by (simp add: tickUpdater_def Let_def)
  then show ?thesis
    using t wellFormed_tickUpdater [OF wf assms(2)] remaining_tickUpdater [OF wf assms(2)]
    by (auto simp: running_def)
qed

lemma running_ticks:
  "running s \<Longrightarrow> int n \<le> remaining s \<Longrightarrow>
     running (ticks n s) \<and> remaining (ticks n s) = remaining s - int n"
proof (induction n arbitrary: s)
  case 0
  then show ?case by simp
next
  case (Suc n)
  then have nc: "phase s \<noteq> Complete"
    using remaining_complete [of s] by auto
  from running_tick [OF Suc.prems(1) nc] Suc.prems(2)
  have "running (tick s)" and "remaining (tick s) = remaining s - 1"
    and "int n \<le> remaining (tick s)" by simp_all
  with Suc.IH [of "tick s"] show ?case by simp
qed

lemma running_complete_iff:
  assumes "running s"
  shows "phase s = Complete \<longleftrightarrow> remaining s = 0"
proof
  assume "phase s = Complete"
  then show "remaining s = 0" by (rule remaining_complete)
next
  assume z: "remaining s = 0"
  show "phase s = Complete"
  proof (rule ccontr)
    assume "phase s \<noteq> Complete"
    with assms have "1 \<le> remaining s" by (simp add: running_def remaining_pos)
    with z show False by simp
  qed
qed

lemma running_start: "validConfig c \<Longrightarrow> running (initializeTimerState c True)"
  by (simp add: running_def wellFormed_start) (simp add: initializeTimerState_def)

lemma totalTicks_nonneg: "validConfig c \<Longrightarrow> 0 \<le> totalTicks c"
  using remaining_pos [OF wellFormed_start, of c True] remaining_start [of c True]
  by (simp add: initializeTimerState_def)

lemma complete_after_iff:
  assumes "validConfig c" and "n \<le> nat (totalTicks c)"
  shows "phase (ticks n (initializeTimerState c True)) = Complete \<longleftrightarrow> n = nat (totalTicks c)"
proof -
  let ?s = "initializeTimerState c True"
  have r: "running ?s" using assms(1) by (rule running_start)
  have tot: "remaining ?s = totalTicks c" by (rule remaining_start)
  have nn: "0 \<le> totalTicks c" using assms(1) by (rule totalTicks_nonneg)
  from running_ticks [OF r, of n] tot nn assms(2)
  have "running (ticks n ?s)" and "remaining (ticks n ?s) = totalTicks c - int n"
    by simp_all
  then show ?thesis
    using nn by (auto simp: running_complete_iff)
qed

text \<open>
  C1: from a fresh, running start on a valid configuration, exactly
  \<open>prep + sets * work + (sets - 1) * rest + cooldown\<close> ticks bring the timer to
  \<open>Complete\<close>, and after any smaller number of ticks it is not complete.
\<close>

theorem ticks_to_complete:
  assumes "validConfig c"
  shows "phase (ticks (nat (totalTicks c)) (initializeTimerState c True)) = Complete \<and>
         (\<forall>n < nat (totalTicks c).
            phase (ticks n (initializeTimerState c True)) \<noteq> Complete)"
  using assms by (simp add: complete_after_iff)

theorem ticks_to_complete_witness:
  "validConfig \<lparr>prep = 3, sets = 2, work = 2, rest = 1, cooldown = 4\<rparr> \<and>
   nat (totalTicks \<lparr>prep = 3, sets = 2, work = 2, rest = 1, cooldown = 4\<rparr>) = 12 \<and>
   phase (ticks 12 (initializeTimerState
     \<lparr>prep = 3, sets = 2, work = 2, rest = 1, cooldown = 4\<rparr> True)) = Complete \<and>
   phase (ticks 11 (initializeTimerState
     \<lparr>prep = 3, sets = 2, work = 2, rest = 1, cooldown = 4\<rparr> True)) \<noteq> Complete"
proof -
  let ?c = "\<lparr>prep = 3, sets = 2, work = 2, rest = 1, cooldown = 4\<rparr>"
  have v: "validConfig ?c"
    by (simp add: validConfig_def MIN_TIME_def MAX_TIME_def)
  have t: "nat (totalTicks ?c) = 12"
    by (simp add: totalTicks_def)
  from ticks_to_complete [OF v] t
  have "phase (ticks 12 (initializeTimerState ?c True)) = Complete"
    and "\<forall>n < 12. phase (ticks n (initializeTimerState ?c True)) \<noteq> Complete"
    by simp_all
  then have "phase (ticks 12 (initializeTimerState ?c True)) = Complete"
    and "phase (ticks 11 (initializeTimerState ?c True)) \<noteq> Complete"
    by simp_all
  with v t show ?thesis by blast
qed

section \<open>The set counter\<close>

lemma tick_currentSet:
  "currentSet (tick s) = currentSet s \<or>
   phase s = Rest \<and> phase (tick s) = Work \<and> currentSet (tick s) = currentSet s + 1"
  by (simp add: tick_def tickUpdater_def Let_def)

lemma skip_currentSet:
  "currentSet (handleSkipSet s) = currentSet s \<or>
   phase s = Rest \<and> phase (handleSkipSet s) = Work \<and>
   currentSet (handleSkipSet s) = currentSet s + 1"
  by (simp add: handleSkipSet_def Let_def)

lemma prep_keeps_currentSet:
  "phase s = Prep \<Longrightarrow>
     currentSet (tick s) = currentSet s \<and> currentSet (handleSkipSet s) = currentSet s"
  by (simp add: tick_def tickUpdater_def handleSkipSet_def getNextPhase_def Let_def)

lemma setIncrements_sum: "currentSet (ticks n s) = currentSet s + int (setIncrements n s)"
proof (induction n arbitrary: s)
  case 0
  then show ?case by simp
next
  case (Suc n)
  from tick_currentSet [of s] Suc [of "tick s"] show ?case by auto
qed

lemma config_tick [simp]: "config (tick s) = config s"
  by (simp add: tick_def tickUpdater_def Let_def)

lemma config_ticks [simp]: "config (ticks n s) = config s"
  by (induction n arbitrary: s) simp_all

lemma config_applyOp [simp]: "config (applyOp op s) = config s"
  by (cases op)
     (simp_all add: handlePause_def handlePlay_def handleSkipSet_def handleRestart_def
        initializeTimerState_def Let_def)

lemma config_exec [simp]: "config (exec ops s) = config s"
  by (induction ops arbitrary: s) simp_all

lemma wellFormed_skip: "wellFormed s \<Longrightarrow> wellFormed (handleSkipSet s)"
  by (cases "phase s")
     (auto simp: wellFormed_def handleSkipSet_def getNextPhase_def getPhaseDuration_def
        validConfig_def MIN_TIME_def Let_def)

lemma wellFormed_applyOp:
  assumes "wellFormed s"
  shows "wellFormed (applyOp op s)"
proof (cases op)
  case Tick
  show ?thesis
  proof (cases "isPaused s \<or> phase s = Complete")
    case True
    with assms Tick show ?thesis by (simp add: tick_def)
  next
    case False
    with assms Tick wellFormed_tickUpdater [of s] show ?thesis by (simp add: tick_def)
  qed
next
  case Pause
  with assms show ?thesis by (simp add: wellFormed_def handlePause_def)
next
  case Resume
  with assms show ?thesis by (simp add: wellFormed_def handlePlay_def)
next
  case Skip
  with assms show ?thesis by (simp add: wellFormed_skip)
next
  case Restart
  from assms
  have "validConfig \<lparr>prep = prep (config s), sets = sets (config s),
          work = work (config s), rest = rest (config s), cooldown = cooldown (config s)\<rparr>"
    by (simp add: wellFormed_def validConfig_def)
  then show ?thesis
    using Restart by (simp add: handleRestart_def wellFormed_start)
qed

lemma wellFormed_exec: "wellFormed s \<Longrightarrow> wellFormed (exec ops s)"
  by (induction ops arbitrary: s) (simp_all add: wellFormed_applyOp)

lemma increments_full_run:
  assumes "validConfig c"
  shows "setIncrements (nat (totalTicks c)) (initializeTimerState c True) = nat (sets c - 1)"
proof -
  let ?s = "initializeTimerState c True"
  let ?n = "nat (totalTicks c)"
  have r: "running ?s" using assms by (rule running_start)
  have tot: "remaining ?s = totalTicks c" by (rule remaining_start)
  have nn: "0 \<le> totalTicks c" using assms by (rule totalTicks_nonneg)
  from running_ticks [OF r, of ?n] tot nn
  have fin: "running (ticks ?n ?s)" and "remaining (ticks ?n ?s) = 0" by simp_all
  then have "phase (ticks ?n ?s) = Complete" by (simp add: running_complete_iff)
  with fin have "currentSet (ticks ?n ?s) = sets (config (ticks ?n ?s))"
    by (simp add: running_def wellFormed_def)
  then have "currentSet (ticks ?n ?s) = sets c"
    by (simp add: initializeTimerState_def)
  with setIncrements_sum [of ?n ?s] have "int (setIncrements ?n ?s) = sets c - 1"
    by (simp add: initializeTimerState_def)
  then show ?thesis by simp
qed

text \<open>
  C6: in every state reached from a fresh start on a valid configuration by ticks,
  pauses, resumes, skips and restarts, \<open>currentSet\<close> is at most the configured number of
  sets. A tick or a skip that changes \<open>currentSet\<close> goes from rest to work and raises it
  by one; a tick or a skip out of the preparation leaves it alone. Over the full unpaused
  run the counter changes on exactly \<open>sets - 1\<close> ticks.
\<close>

theorem currentSet_bounded_and_counted:
  assumes "validConfig c"
  shows "currentSet (exec ops (initializeTimerState c True))
           \<le> sets (config (exec ops (initializeTimerState c True))) \<and>
         config (exec ops (initializeTimerState c True)) = c \<and>
         setIncrements (nat (totalTicks c)) (initializeTimerState c True) = nat (sets c - 1) \<and>
         (currentSet (tick s) \<noteq> currentSet s \<longrightarrow>
            phase s = Rest \<and> phase (tick s) = Work \<and>
            currentSet (tick s) = currentSet s + 1) \<and>
         (currentSet (handleSkipSet s) \<noteq> currentSet s \<longrightarrow>
            phase s = Rest \<and> phase (handleSkipSet s) = Work \<and>
            currentSet (handleSkipSet s) = currentSet s + 1) \<and>
         (phase s = Prep \<longrightarrow>
            currentSet (tick s) = currentSet s \<and> currentSet (handleSkipSet s) = currentSet s)"
proof -
  let ?s0 = "initializeTimerState c True"
  have "wellFormed (exec ops ?s0)"
    using assms by (simp add: wellFormed_exec wellFormed_start)
  then have bound: "currentSet (exec ops ?s0) \<le> sets (config (exec ops ?s0))"
    by (simp add: wellFormed_def)
  have cfg: "config (exec ops ?s0) = c"
    by (simp add: initializeTimerState_def)
  have cnt: "setIncrements (nat (totalTicks c)) ?s0 = nat (sets c - 1)"
    using assms by (rule increments_full_run)
  from bound cfg cnt tick_currentSet [of s] skip_currentSet [of s] prep_keeps_currentSet [of s]
  show ?thesis by blast
qed

theorem currentSet_bounded_and_counted_witness:
  "validConfig \<lparr>prep = 3, sets = 2, work = 2, rest = 1, cooldown = 4\<rparr> \<and>
   currentSet (exec [Skip, Skip, Skip, Pause, Resume, Tick, Skip, Skip]
     (initializeTimerState \<lparr>prep = 3, sets = 2, work = 2, rest = 1, cooldown = 4\<rparr> True))
     \<le> 2 \<and>
   setIncrements 12
     (initializeTimerState \<lparr>prep = 3, sets = 2, work = 2, rest = 1, cooldown = 4\<rparr> True) = 1 \<and>
   phase (tick \<lparr>phase = Rest, currentSet = 1, timeRemaining = 1, totalTime = 1,
      isPaused = False,
      config = \<lparr>prep = 3, sets = 2, work = 2, rest = 1, cooldown = 4\<rparr>\<rparr>) = Work \<and>
   phase (handleSkipSet \<lparr>phase = Rest, currentSet = 1, timeRemaining = 1, totalTime = 1,
      isPaused = False,
      config = \<lparr>prep = 3, sets = 2, work = 2, rest = 1, cooldown = 4\<rparr>\<rparr>) = Work \<and>
   currentSet (tick (initializeTimerState
      \<lparr>prep = 1, sets = 2, work = 2, rest = 1, cooldown = 4\<rparr> True)) = 1"
proof -
  let ?c = "\<lparr>prep = 3, sets = 2, work = 2, rest = 1, cooldown = 4\<rparr>"
  let ?c1 = "\<lparr>prep = 1, sets = 2, work = 2, rest = 1, cooldown = 4\<rparr>"
  let ?ops = "[Skip, Skip, Skip, Pause, Resume, Tick, Skip, Skip]"
  let ?r = "\<lparr>phase = Rest, currentSet = 1, timeRemaining = 1, totalTime = 1,
      isPaused = False, config = ?c\<rparr>"
  have v: "validConfig ?c" and v1: "validConfig ?c1"
    by (simp_all add: validConfig_def MIN_TIME_def MAX_TIME_def)
  have t: "nat (totalTicks ?c) = 12" "nat (sets ?c - 1) = 1"
    by (simp_all add: totalTicks_def)
  have ch: "currentSet (tick ?r) \<noteq> currentSet ?r"
    "currentSet (handleSkipSet ?r) \<noteq> currentSet ?r"
    by (simp_all add: tick_def tickUpdater_def handleSkipSet_def getNextPhase_def
          getPhaseDuration_def Let_def)
  have p: "phase (initializeTimerState ?c1 True) = Prep" "currentSet (initializeTimerState ?c1 True) = 1"
    by (simp_all add: initializeTimerState_def)
  note run = currentSet_bounded_and_counted [OF v, of ?ops ?r]
  note start = currentSet_bounded_and_counted [OF v1, of "[]" "initializeTimerState ?c1 True"]
  have two: "sets ?c = 2" by simp
  from run have "currentSet (exec ?ops (initializeTimerState ?c True))
      \<le> sets (config (exec ?ops (initializeTimerState ?c True)))"
    and "config (exec ?ops (initializeTimerState ?c True)) = ?c"
    by blast+
  with two have bound: "currentSet (exec ?ops (initializeTimerState ?c True)) \<le> 2"
    by (simp only:)
  from run have "setIncrements (nat (totalTicks ?c)) (initializeTimerState ?c True)
      = nat (sets ?c - 1)"
    by blast
  with t have count: "setIncrements 12 (initializeTimerState ?c True) = 1"
    by (simp only:)
  from run ch have trans: "phase (tick ?r) = Work" "phase (handleSkipSet ?r) = Work"
    by blast+
  from start p have "currentSet (tick (initializeTimerState ?c1 True))
      = currentSet (initializeTimerState ?c1 True)"
    by blast
  with p have first: "currentSet (tick (initializeTimerState ?c1 True)) = 1"
    by (simp only:)
  from v bound count trans first show ?thesis by blast
qed

section \<open>Completion under the control operations\<close>

lemma complete_zero_applyOp:
  "(phase s = Complete \<longrightarrow> timeRemaining s = 0) \<Longrightarrow>
   phase (applyOp op s) = Complete \<Longrightarrow> timeRemaining (applyOp op s) = 0"
  by (cases op)
     (auto simp: tick_def tickUpdater_def handlePause_def handlePlay_def handleSkipSet_def
        handleRestart_def initializeTimerState_def Let_def split: if_splits)

lemma complete_zero_exec:
  "(phase s = Complete \<longrightarrow> timeRemaining s = 0) \<Longrightarrow>
   phase (exec ops s) = Complete \<Longrightarrow> timeRemaining (exec ops s) = 0"
proof (induction ops arbitrary: s)
  case Nil
  then show ?case by simp
next
  case (Cons op ops)
  from Cons.prems(1) have "phase (applyOp op s) = Complete \<longrightarrow> timeRemaining (applyOp op s) = 0"
    using complete_zero_applyOp [of s op] by blast
  with Cons.IH [of "applyOp op s"] Cons.prems(2) show ?case by simp
qed

lemma complete_paused_applyOp:
  "(phase s = Complete \<longrightarrow> isPaused s) \<Longrightarrow> (op = Resume \<longrightarrow> phase s \<noteq> Complete) \<Longrightarrow>
   phase (applyOp op s) = Complete \<Longrightarrow> isPaused (applyOp op s)"
  by (cases op)
     (auto simp: tick_def tickUpdater_def handlePause_def handlePlay_def handleSkipSet_def
        handleRestart_def initializeTimerState_def Let_def split: if_splits)

lemma complete_paused_exec:
  "(phase s = Complete \<longrightarrow> isPaused s) \<Longrightarrow> resumeGated ops s \<Longrightarrow>
   phase (exec ops s) = Complete \<Longrightarrow> isPaused (exec ops s)"
proof (induction ops arbitrary: s)
  case Nil
  then show ?case by simp
next
  case (Cons op ops)
  from Cons.prems(1,2)
  have "phase (applyOp op s) = Complete \<longrightarrow> isPaused (applyOp op s)"
    using complete_paused_applyOp [of s op] by auto
  with Cons.IH [of "applyOp op s"] Cons.prems(2,3) show ?case by simp
qed

lemma perform_cases:
  "perform op s = s \<or>
   perform op s = applyOp op s \<and> (op = Resume \<longrightarrow> phase s \<noteq> Complete)"
  by (cases op) (simp_all add: pause_def resume_def skip_def restart_def isActive_def)

lemma complete_inv_perform:
  assumes "phase s = Complete \<longrightarrow> timeRemaining s = 0 \<and> isPaused s"
  shows "phase (perform op s) = Complete \<longrightarrow>
           timeRemaining (perform op s) = 0 \<and> isPaused (perform op s)"
proof (cases "perform op s = s")
  case True
  with assms show ?thesis by simp
next
  case False
  with perform_cases [of op s]
  have eq: "perform op s = applyOp op s" and gate: "op = Resume \<longrightarrow> phase s \<noteq> Complete"
    by blast+
  from assms complete_zero_applyOp [of s op] complete_paused_applyOp [of s op] gate
  have "phase (applyOp op s) = Complete \<longrightarrow>
          timeRemaining (applyOp op s) = 0 \<and> isPaused (applyOp op s)"
    by blast
  with eq show ?thesis by simp
qed

lemma complete_inv_runOps:
  "(phase s = Complete \<longrightarrow> timeRemaining s = 0 \<and> isPaused s) \<Longrightarrow>
   phase (runOps ops s) = Complete \<longrightarrow>
     timeRemaining (runOps ops s) = 0 \<and> isPaused (runOps ops s)"
proof (induction ops arbitrary: s)
  case Nil
  then show ?case by simp
next
  case (Cons op ops)
  from complete_inv_perform [OF Cons.prems, of op] Cons.IH [of "perform op s"]
  show ?case by simp
qed

text \<open>
  C3: in every state that a run of ticks, pauses, resumes, skips and restarts reaches
  from a fresh start, a completed timer has no time remaining and is paused. The same
  holds when the handlers are called directly, in any state, provided the play handler is
  not called on a completed timer; and a completed timer has no time remaining whatever
  handlers are called.
\<close>

theorem complete_invariant:
  "(phase (runOps ops (initializeTimerState c True)) = Complete \<longrightarrow>
      timeRemaining (runOps ops (initializeTimerState c True)) = 0 \<and>
      isPaused (runOps ops (initializeTimerState c True))) \<and>
   (resumeGated ops (initializeTimerState c True) \<and>
    phase (exec ops (initializeTimerState c True)) = Complete \<longrightarrow>
      timeRemaining (exec ops (initializeTimerState c True)) = 0 \<and>
      isPaused (exec ops (initializeTimerState c True))) \<and>
   (phase (exec ops (initializeTimerState c True)) = Complete \<longrightarrow>
      timeRemaining (exec ops (initializeTimerState c True)) = 0)"
proof -
  let ?s0 = "initializeTimerState c True"
  have p: "phase ?s0 \<noteq> Complete" by (simp add: initializeTimerState_def)
  from p complete_inv_runOps [of ?s0 ops] complete_zero_exec [of ?s0 ops]
    complete_paused_exec [of ?s0 ops]
  show ?thesis by blast
qed

theorem complete_invariant_witness:
  "phase (runOps [Tick, Pause, Resume, Skip, Restart, Tick, Tick, Resume, Skip, Pause]
     (initializeTimerState \<lparr>prep = 1, sets = 1, work = 1, rest = 1, cooldown = 0\<rparr> True))
     = Complete \<and>
   timeRemaining (runOps [Tick, Pause, Resume, Skip, Restart, Tick, Tick, Resume, Skip, Pause]
     (initializeTimerState \<lparr>prep = 1, sets = 1, work = 1, rest = 1, cooldown = 0\<rparr> True))
     = 0 \<and>
   isPaused (runOps [Tick, Pause, Resume, Skip, Restart, Tick, Tick, Resume, Skip, Pause]
     (initializeTimerState \<lparr>prep = 1, sets = 1, work = 1, rest = 1, cooldown = 0\<rparr> True)) \<and>
   resumeGated [Tick, Pause, Resume, Skip, Tick, Restart, Tick, Tick]
     (initializeTimerState \<lparr>prep = 1, sets = 1, work = 1, rest = 1, cooldown = 0\<rparr> True) \<and>
   phase (exec [Tick, Pause, Resume, Skip, Tick, Restart, Tick, Tick]
     (initializeTimerState \<lparr>prep = 1, sets = 1, work = 1, rest = 1, cooldown = 0\<rparr> True))
     = Complete \<and>
   timeRemaining (exec [Tick, Pause, Resume, Skip, Tick, Restart, Tick, Tick]
     (initializeTimerState \<lparr>prep = 1, sets = 1, work = 1, rest = 1, cooldown = 0\<rparr> True))
     = 0 \<and>
   isPaused (exec [Tick, Pause, Resume, Skip, Tick, Restart, Tick, Tick]
     (initializeTimerState \<lparr>prep = 1, sets = 1, work = 1, rest = 1, cooldown = 0\<rparr> True))"
proof -
  let ?c = "\<lparr>prep = 1, sets = 1, work = 1, rest = 1, cooldown = 0\<rparr>"
  let ?view = "[Tick, Pause, Resume, Skip, Restart, Tick, Tick, Resume, Skip, Pause]"
  let ?ops = "[Tick, Pause, Resume, Skip, Tick, Restart, Tick, Tick]"
  have v: "phase (runOps ?view (initializeTimerState ?c True)) = Complete"
    by code_simp
  have g: "resumeGated ?ops (initializeTimerState ?c True)"
    by code_simp
  have ph: "phase (exec ?ops (initializeTimerState ?c True)) = Complete"
    by code_simp
  from complete_invariant [of ?view ?c] v
  have "timeRemaining (runOps ?view (initializeTimerState ?c True)) = 0"
    and "isPaused (runOps ?view (initializeTimerState ?c True))"
    by blast+
  moreover from complete_invariant [of ?ops ?c] g ph
  have "timeRemaining (exec ?ops (initializeTimerState ?c True)) = 0"
    and "isPaused (exec ?ops (initializeTimerState ?c True))"
    by blast+
  ultimately show ?thesis using v g ph by blast
qed

section \<open>A worked run\<close>

lemma trace_prep:
  "ticks 10 (initializeTimerState
     \<lparr>prep = 10, sets = 2, work = 20, rest = 10, cooldown = 0\<rparr> True)
   = \<lparr>phase = Work, currentSet = 1, timeRemaining = 20, totalTime = 20, isPaused = False,
      config = \<lparr>prep = 10, sets = 2, work = 20, rest = 10, cooldown = 0\<rparr>\<rparr>"
  by code_simp

lemma trace_work1:
  "ticks 20
     \<lparr>phase = Work, currentSet = 1, timeRemaining = 20, totalTime = 20, isPaused = False,
      config = \<lparr>prep = 10, sets = 2, work = 20, rest = 10, cooldown = 0\<rparr>\<rparr>
   = \<lparr>phase = Rest, currentSet = 1, timeRemaining = 10, totalTime = 10, isPaused = False,
      config = \<lparr>prep = 10, sets = 2, work = 20, rest = 10, cooldown = 0\<rparr>\<rparr>"
  by code_simp

lemma trace_rest1:
  "ticks 10
     \<lparr>phase = Rest, currentSet = 1, timeRemaining = 10, totalTime = 10, isPaused = False,
      config = \<lparr>prep = 10, sets = 2, work = 20, rest = 10, cooldown = 0\<rparr>\<rparr>
   = \<lparr>phase = Work, currentSet = 2, timeRemaining = 20, totalTime = 20, isPaused = False,
      config = \<lparr>prep = 10, sets = 2, work = 20, rest = 10, cooldown = 0\<rparr>\<rparr>"
  by code_simp

lemma trace_work2:
  "ticks 20
     \<lparr>phase = Work, currentSet = 2, timeRemaining = 20, totalTime = 20, isPaused = False,
      config = \<lparr>prep = 10, sets = 2, work = 20, rest = 10, cooldown = 0\<rparr>\<rparr>
   = \<lparr>phase = Complete, currentSet = 2, timeRemaining = 0, totalTime = 20, isPaused = True,
      config = \<lparr>prep = 10, sets = 2, work = 20, rest = 10, cooldown = 0\<rparr>\<rparr>"
  by code_simp

lemma trace_start:
  "initializeTimerState \<lparr>prep = 10, sets = 2, work = 20, rest = 10, cooldown = 0\<rparr> True
   = \<lparr>phase = Prep, currentSet = 1, timeRemaining = 10, totalTime = 10, isPaused = False,
      config = \<lparr>prep = 10, sets = 2, work = 20, rest = 10, cooldown = 0\<rparr>\<rparr>"
  by (simp add: initializeTimerState_def)

lemma trace_total:
  "validConfig \<lparr>prep = 10, sets = 2, work = 20, rest = 10, cooldown = 0\<rparr>"
  "nat (totalTicks \<lparr>prep = 10, sets = 2, work = 20, rest = 10, cooldown = 0\<rparr>) = 60"
  by (simp_all add: validConfig_def MIN_TIME_def MAX_TIME_def totalTicks_def)

text \<open>
  C9, as the code has it: the run of
  \<open>{prep: 10, sets: 2, work: 20, rest: 10, cooldown: 0}\<close>. The start is
  \<open>(Prep, 1, 10)\<close>; ten ticks later the state is \<open>(Work, 1, 20)\<close>, twenty ticks later
  \<open>(Rest, 1, 10)\<close>, ten ticks later \<open>(Work, 2, 20)\<close>, twenty ticks later
  \<open>(Complete, 2, 0)\<close>. The timer is complete after \<open>10 + 20 + 10 + 20 = 60\<close> ticks and
  not before.
\<close>

theorem concrete_trace:
  "initializeTimerState \<lparr>prep = 10, sets = 2, work = 20, rest = 10, cooldown = 0\<rparr> True
   = \<lparr>phase = Prep, currentSet = 1, timeRemaining = 10, totalTime = 10, isPaused = False,
      config = \<lparr>prep = 10, sets = 2, work = 20, rest = 10, cooldown = 0\<rparr>\<rparr> \<and>
   ticks 10 (initializeTimerState
     \<lparr>prep = 10, sets = 2, work = 20, rest = 10, cooldown = 0\<rparr> True)
   = \<lparr>phase = Work, currentSet = 1, timeRemaining = 20, totalTime = 20, isPaused = False,
      config = \<lparr>prep = 10, sets = 2, work = 20, rest = 10, cooldown = 0\<rparr>\<rparr> \<and>
   ticks 20
     \<lparr>phase = Work, currentSet = 1, timeRemaining = 20, totalTime = 20, isPaused = False,
      config = \<lparr>prep = 10, sets = 2, work = 20, rest = 10, cooldown = 0\<rparr>\<rparr>
   = \<lparr>phase = Rest, currentSet = 1, timeRemaining = 10, totalTime = 10, isPaused = False,
      config = \<lparr>prep = 10, sets = 2, work = 20, rest = 10, cooldown = 0\<rparr>\<rparr> \<and>
   ticks 10
     \<lparr>phase = Rest, currentSet = 1, timeRemaining = 10, totalTime = 10, isPaused = False,
      config = \<lparr>prep = 10, sets = 2, work = 20, rest = 10, cooldown = 0\<rparr>\<rparr>
   = \<lparr>phase = Work, currentSet = 2, timeRemaining = 20, totalTime = 20, isPaused = False,
      config = \<lparr>prep = 10, sets = 2, work = 20, rest = 10, cooldown = 0\<rparr>\<rparr> \<and>
   ticks 20
     \<lparr>phase = Work, currentSet = 2, timeRemaining = 20, totalTime = 20, isPaused = False,
      config = \<lparr>prep = 10, sets = 2, work = 20, rest = 10, cooldown = 0\<rparr>\<rparr>
   = \<lparr>phase = Complete, currentSet = 2, timeRemaining = 0, totalTime = 20, isPaused = True,
      config = \<lparr>prep = 10, sets = 2, work = 20, rest = 10, cooldown = 0\<rparr>\<rparr> \<and>
   (\<forall>n \<le> 60.
      phase (ticks n (initializeTimerState
        \<lparr>prep = 10, sets = 2, work = 20, rest = 10, cooldown = 0\<rparr> True)) = Complete
      \<longleftrightarrow> n = 60)"
proof -
  let ?c = "\<lparr>prep = 10, sets = 2, work = 20, rest = 10, cooldown = 0\<rparr>"
  have "phase (ticks n (initializeTimerState ?c True)) = Complete \<longleftrightarrow> n = 60"
    if "n \<le> 60" for n
  proof -
    from that trace_total(2) have "n \<le> nat (totalTicks ?c)" by simp
    from complete_after_iff [OF trace_total(1) this] trace_total(2) show ?thesis by simp
  qed
  then show ?thesis
    using trace_start trace_prep trace_work1 trace_rest1 trace_work2 by blast
qed

theorem concrete_trace_witness:
  "phase (ticks 60 (initializeTimerState
     \<lparr>prep = 10, sets = 2, work = 20, rest = 10, cooldown = 0\<rparr> True)) = Complete \<and>
   phase (ticks 59 (initializeTimerState
     \<lparr>prep = 10, sets = 2, work = 20, rest = 10, cooldown = 0\<rparr> True)) \<noteq> Complete"
proof -
  let ?s0 = "initializeTimerState
     \<lparr>prep = 10, sets = 2, work = 20, rest = 10, cooldown = 0\<rparr> True"
  from concrete_trace
  have all: "\<forall>n \<le> 60. phase (ticks n ?s0) = Complete \<longleftrightarrow> n = 60"
    by blast
  have "(60::nat) \<le> 60" and "(59::nat) \<le> 60" and "(59::nat) \<noteq> 60" by simp_all
  with all show ?thesis by blast
qed

text \<open>
  The total of 70 ticks that C9 states is not the code's: the timer is already complete
  after 60 ticks, ten ticks before the seventieth.
\<close>

theorem concrete_trace_total_counterexample:
  "(60::nat) < 70 \<and>
   phase (ticks 60 (initializeTimerState
     \<lparr>prep = 10, sets = 2, work = 20, rest = 10, cooldown = 0\<rparr> True)) = Complete"
proof -
  have "phase (ticks 60 (initializeTimerState
     \<lparr>prep = 10, sets = 2, work = 20, rest = 10, cooldown = 0\<rparr> True)) = Complete"
    by code_simp
  then show ?thesis by simp
qed

section \<open>Validation of the form\<close>

lemma numToString_MIN: "numToString 1 = ''1''"
  by (simp add: numToString_def)

lemma numToString_MAX: "numToString 3600 = ''3600''"
  by (simp add: numToString_def)

lemma validate_prep:
  "\<forall>v. opt_prep cfg = Some v \<longrightarrow> v < 1 \<or> 3600 < v \<Longrightarrow>
   validateConfig cfg = Some ''Prep must be between 1s and 3600s (60 minutes)''"
  by (cases "opt_prep cfg")
     (auto simp: validateConfig_def numToString_MIN numToString_MAX MIN_TIME_def MAX_TIME_def)

lemma validate_sets:
  "opt_prep cfg = Some p \<Longrightarrow> 1 \<le> p \<Longrightarrow> p \<le> 3600 \<Longrightarrow>
   \<forall>v. opt_sets cfg = Some v \<longrightarrow> v < 1 \<Longrightarrow>
   validateConfig cfg = Some ''Sets must be at least 1''"
  by (cases "opt_sets cfg")
     (auto simp: validateConfig_def MIN_TIME_def MAX_TIME_def)

lemma validate_work:
  "opt_prep cfg = Some p \<Longrightarrow> 1 \<le> p \<Longrightarrow> p \<le> 3600 \<Longrightarrow> opt_sets cfg = Some n \<Longrightarrow> 1 \<le> n \<Longrightarrow>
   \<forall>v. opt_work cfg = Some v \<longrightarrow> v < 1 \<or> 3600 < v \<Longrightarrow>
   validateConfig cfg = Some ''Work must be between 1s and 3600s (60 minutes)''"
  by (cases "opt_work cfg")
     (auto simp: validateConfig_def numToString_MIN numToString_MAX MIN_TIME_def MAX_TIME_def)

lemma validate_rest:
  "opt_prep cfg = Some p \<Longrightarrow> 1 \<le> p \<Longrightarrow> p \<le> 3600 \<Longrightarrow> opt_sets cfg = Some n \<Longrightarrow> 1 \<le> n \<Longrightarrow>
   opt_work cfg = Some w \<Longrightarrow> 1 \<le> w \<Longrightarrow> w \<le> 3600 \<Longrightarrow>
   \<forall>v. opt_rest cfg = Some v \<longrightarrow> v < 1 \<or> 3600 < v \<Longrightarrow>
   validateConfig cfg = Some ''Rest must be between 1s and 3600s (60 minutes)''"
  by (cases "opt_rest cfg")
     (auto simp: validateConfig_def numToString_MIN numToString_MAX MIN_TIME_def MAX_TIME_def)

lemma validate_cooldown:
  "opt_prep cfg = Some p \<Longrightarrow> 1 \<le> p \<Longrightarrow> p \<le> 3600 \<Longrightarrow> opt_sets cfg = Some n \<Longrightarrow> 1 \<le> n \<Longrightarrow>
   opt_work cfg = Some w \<Longrightarrow> 1 \<le> w \<Longrightarrow> w \<le> 3600 \<Longrightarrow>
   opt_rest cfg = Some r \<Longrightarrow> 1 \<le> r \<Longrightarrow> r \<le> 3600 \<Longrightarrow>
   opt_cooldown cfg = Some cd \<Longrightarrow> cd < 0 \<or> 3600 < cd \<Longrightarrow>
   validateConfig cfg = Some ''Cooldown must be between 0s and 3600s (60 minutes)''"
  by (auto simp: validateConfig_def numToString_MAX MIN_TIME_def MAX_TIME_def)

lemma validate_ok:
  "opt_prep cfg = Some p \<Longrightarrow> 1 \<le> p \<Longrightarrow> p \<le> 3600 \<Longrightarrow> opt_sets cfg = Some n \<Longrightarrow> 1 \<le> n \<Longrightarrow>
   opt_work cfg = Some w \<Longrightarrow> 1 \<le> w \<Longrightarrow> w \<le> 3600 \<Longrightarrow>
   opt_rest cfg = Some r \<Longrightarrow> 1 \<le> r \<Longrightarrow> r \<le> 3600 \<Longrightarrow>
   \<forall>v. opt_cooldown cfg = Some v \<longrightarrow> 0 \<le> v \<and> v \<le> 3600 \<Longrightarrow>
   validateConfig cfg = None"
  by (cases "opt_cooldown cfg")
     (auto simp: validateConfig_def MIN_TIME_def MAX_TIME_def)

lemma handleStart_error: "validateConfig cfg = Some e \<Longrightarrow> handleStart cfg = Inl e"
  by (simp add: handleStart_def)

lemma handleStart_ok:
  "validateConfig cfg = None \<Longrightarrow> opt_prep cfg = Some p \<Longrightarrow> opt_sets cfg = Some n \<Longrightarrow>
   opt_work cfg = Some w \<Longrightarrow> opt_rest cfg = Some r \<Longrightarrow>
   handleStart cfg =
     Inr (initializeTimerState
            \<lparr>prep = p, sets = n, work = w, rest = r,
             cooldown = (case opt_cooldown cfg of None \<Rightarrow> 0 | Some c \<Rightarrow> c)\<rparr> True)"
  by (cases "opt_cooldown cfg") (simp_all add: handleStart_def)

lemma validate_scenario:
  "validateConfig \<lparr>opt_prep = Some 0, opt_sets = Some 4, opt_work = Some 20,
      opt_rest = Some 10, opt_cooldown = None\<rparr>
   = Some ''Prep must be between 1s and 3600s (60 minutes)''"
  by (rule validate_prep) simp

text \<open>
  C8: the checks run in the order prep, sets, work, rest, cooldown, and the message
  returned is that of the first field that fails, whatever the later fields hold; each
  message begins with the name of its field. A field fails when it is absent or out of
  its bounds; the cooldown only when it is present and out of its bounds. When every check
  passes, the start handler builds the full configuration, with \<open>0\<close> for an absent
  cooldown. The form \<open>{prep: 0, sets: 4, work: 20, rest: 10}\<close> is rejected with the
  message about Prep.
\<close>

theorem validate_first_violation:
  "((\<forall>v. opt_prep cfg = Some v \<longrightarrow> v < 1 \<or> 3600 < v) \<longrightarrow>
      validateConfig cfg = Some ''Prep must be between 1s and 3600s (60 minutes)'') \<and>
   (opt_prep cfg = Some p \<and> 1 \<le> p \<and> p \<le> 3600 \<longrightarrow>
     ((\<forall>v. opt_sets cfg = Some v \<longrightarrow> v < 1) \<longrightarrow>
        validateConfig cfg = Some ''Sets must be at least 1'') \<and>
     (opt_sets cfg = Some n \<and> 1 \<le> n \<longrightarrow>
       ((\<forall>v. opt_work cfg = Some v \<longrightarrow> v < 1 \<or> 3600 < v) \<longrightarrow>
          validateConfig cfg = Some ''Work must be between 1s and 3600s (60 minutes)'') \<and>
       (opt_work cfg = Some w \<and> 1 \<le> w \<and> w \<le> 3600 \<longrightarrow>
         ((\<forall>v. opt_rest cfg = Some v \<longrightarrow> v < 1 \<or> 3600 < v) \<longrightarrow>
            validateConfig cfg = Some ''Rest must be between 1s and 3600s (60 minutes)'') \<and>
         (opt_rest cfg = Some r \<and> 1 \<le> r \<and> r \<le> 3600 \<longrightarrow>
           ((\<exists>v. opt_cooldown cfg = Some v \<and> (v < 0 \<or> 3600 < v)) \<longrightarrow>
              validateConfig cfg
                = Some ''Cooldown must be between 0s and 3600s (60 minutes)'') \<and>
           ((\<forall>v. opt_cooldown cfg = Some v \<longrightarrow> 0 \<le> v \<and> v \<le> 3600) \<longrightarrow>
              validateConfig cfg = None \<and>
              handleStart cfg =
                Inr (initializeTimerState
                       \<lparr>prep = p, sets = n, work = w, rest = r,
                        cooldown = (case opt_cooldown cfg of None \<Rightarrow> 0 | Some c \<Rightarrow> c)\<rparr>
                       True) \<and>
              (\<exists>st. handleStart cfg = Inr st \<and>
                 config st =
                   \<lparr>prep = p, sets = n, work = w, rest = r,
                    cooldown = (case opt_cooldown cfg of None \<Rightarrow> 0 | Some c \<Rightarrow> c)\<rparr>)))))) \<and>
   (\<forall>e. validateConfig cfg = Some e \<longrightarrow> handleStart cfg = Inl e) \<and>
   (\<exists>e. validateConfig \<lparr>opt_prep = Some 0, opt_sets = Some 4, opt_work = Some 20,
            opt_rest = Some 10, opt_cooldown = None\<rparr> = Some e \<and>
        take 4 e = ''Prep'')"
proof -
  have scenario: "\<exists>e. validateConfig \<lparr>opt_prep = Some 0, opt_sets = Some 4,
      opt_work = Some 20, opt_rest = Some 10, opt_cooldown = None\<rparr> = Some e \<and>
      take 4 e = ''Prep''"
    using validate_scenario by simp
  have ok: "validateConfig cfg = None \<and>
      handleStart cfg =
        Inr (initializeTimerState
               \<lparr>prep = p, sets = n, work = w, rest = r,
                cooldown = (case opt_cooldown cfg of None \<Rightarrow> 0 | Some c \<Rightarrow> c)\<rparr> True) \<and>
      (\<exists>st. handleStart cfg = Inr st \<and>
         config st =
           \<lparr>prep = p, sets = n, work = w, rest = r,
            cooldown = (case opt_cooldown cfg of None \<Rightarrow> 0 | Some c \<Rightarrow> c)\<rparr>)"
    if "opt_prep cfg = Some p" "1 \<le> p" "p \<le> 3600" "opt_sets cfg = Some n" "1 \<le> n"
      "opt_work cfg = Some w" "1 \<le> w" "w \<le> 3600"
      "opt_rest cfg = Some r" "1 \<le> r" "r \<le> 3600"
      "\<forall>v. opt_cooldown cfg = Some v \<longrightarrow> 0 \<le> v \<and> v \<le> 3600"
  proof -
    have "validateConfig cfg = None" using that by (rule validate_ok)
    with that show ?thesis by (simp add: handleStart_ok initializeTimerState_def)
  qed
  show ?thesis
    using validate_prep [of cfg] validate_sets [of cfg p] validate_work [of cfg p n]
      validate_rest [of cfg p n w] validate_cooldown [of cfg p n w r] ok
      handleStart_error [of cfg] scenario
    by blast
qed

theorem validate_first_violation_witness:
  "validateConfig \<lparr>opt_prep = Some 0, opt_sets = None, opt_work = Some 4000,
      opt_rest = None, opt_cooldown = Some (- 1)\<rparr>
     = Some ''Prep must be between 1s and 3600s (60 minutes)'' \<and>
   validateConfig \<lparr>opt_prep = Some 10, opt_sets = None, opt_work = Some 4000,
      opt_rest = None, opt_cooldown = Some (- 1)\<rparr>
     = Some ''Sets must be at least 1'' \<and>
   validateConfig \<lparr>opt_prep = Some 10, opt_sets = Some 4, opt_work = Some 4000,
      opt_rest = None, opt_cooldown = Some (- 1)\<rparr>
     = Some ''Work must be between 1s and 3600s (60 minutes)'' \<and>
   validateConfig \<lparr>opt_prep = Some 10, opt_sets = Some 4, opt_work = Some 20,
      opt_rest = None, opt_cooldown = Some (- 1)\<rparr>
     = Some ''Rest must be between 1s and 3600s (60 minutes)'' \<and>
   validateConfig \<lparr>opt_prep = Some 10, opt_sets = Some 4, opt_work = Some 20,
      opt_rest = Some 10, opt_cooldown = Some (- 1)\<rparr>
     = Some ''Cooldown must be between 0s and 3600s (60 minutes)'' \<and>
   handleStart \<lparr>opt_prep = Some 10, opt_sets = Some 4, opt_work = Some 20,
      opt_rest = Some 10, opt_cooldown = Some (- 1)\<rparr>
     = Inl ''Cooldown must be between 0s and 3600s (60 minutes)'' \<and>
   handleStart \<lparr>opt_prep = Some 10, opt_sets = Some 4, opt_work = Some 20,
      opt_rest = Some 10, opt_cooldown = None\<rparr>
     = Inr \<lparr>phase = Prep, currentSet = 1, timeRemaining = 10, totalTime = 10,
           isPaused = False,
           config = \<lparr>prep = 10, sets = 4, work = 20, rest = 10, cooldown = 0\<rparr>\<rparr>"
proof -
  have 1: "validateConfig \<lparr>opt_prep = Some 0, opt_sets = None, opt_work = Some 4000,
      opt_rest = None, opt_cooldown = Some (- 1)\<rparr>
     = Some ''Prep must be between 1s and 3600s (60 minutes)''"
    using validate_first_violation
      [of "\<lparr>opt_prep = Some 0, opt_sets = None, opt_work = Some 4000,
            opt_rest = None, opt_cooldown = Some (- 1)\<rparr>" 0 0 0 0]
    by simp
  have 2: "validateConfig \<lparr>opt_prep = Some 10, opt_sets = None, opt_work = Some 4000,
      opt_rest = None, opt_cooldown = Some (- 1)\<rparr>
     = Some ''Sets must be at least 1''"
    using validate_first_violation
      [of "\<lparr>opt_prep = Some 10, opt_sets = None, opt_work = Some 4000,
            opt_rest = None, opt_cooldown = Some (- 1)\<rparr>" 10 0 0 0]
    by simp
  have 3: "validateConfig \<lparr>opt_prep = Some 10, opt_sets = Some 4, opt_work = Some 4000,
      opt_rest = None, opt_cooldown = Some (- 1)\<rparr>
     = Some ''Work must be between 1s and 3600s (60 minutes)''"
    using validate_first_violation
      [of "\<lparr>opt_prep = Some 10, opt_sets = Some 4, opt_work = Some 4000,
            opt_rest = None, opt_cooldown = Some (- 1)\<rparr>" 10 4 0 0]
    by simp
  have 4: "validateConfig \<lparr>opt_prep = Some 10, opt_sets = Some 4, opt_work = Some 20,
      opt_rest = None, opt_cooldown = Some (- 1)\<rparr>
     = Some ''Rest must be between 1s and 3600s (60 minutes)''"
    using validate_first_violation
      [of "\<lparr>opt_prep = Some 10, opt_sets = Some 4, opt_work = Some 20,
            opt_rest = None, opt_cooldown = Some (- 1)\<rparr>" 10 4 20 0]
    by simp
  have 5: "validateConfig \<lparr>opt_prep = Some 10, opt_sets = Some 4, opt_work = Some 20,
      opt_rest = Some 10, opt_cooldown = Some (- 1)\<rparr>
     = Some ''Cooldown must be between 0s and 3600s (60 minutes)'' \<and>
     handleStart \<lparr>opt_prep = Some 10, opt_sets = Some 4, opt_work = Some 20,
      opt_rest = Some 10, opt_cooldown = Some (- 1)\<rparr>
     = Inl ''Cooldown must be between 0s and 3600s (60 minutes)''"
    using validate_first_violation
      [of "\<lparr>opt_prep = Some 10, opt_sets = Some 4, opt_work = Some 20,
            opt_rest = Some 10, opt_cooldown = Some (- 1)\<rparr>" 10 4 20 10]
    by simp
  have 6: "handleStart \<lparr>opt_prep = Some 10, opt_sets = Some 4, opt_work = Some 20,
      opt_rest = Some 10, opt_cooldown = None\<rparr>
     = Inr \<lparr>phase = Prep, currentSet = 1, timeRemaining = 10, totalTime = 10,
           isPaused = False,
           config = \<lparr>prep = 10, sets = 4, work = 20, rest = 10, cooldown = 0\<rparr>\<rparr>"
    using validate_first_violation
      [of "\<lparr>opt_prep = Some 10, opt_sets = Some 4, opt_work = Some 20,
            opt_rest = Some 10, opt_cooldown = None\<rparr>" 10 4 20 10]
    by (simp add: initializeTimerState_def)
  from 1 2 3 4 5 6 show ?thesis by blast
qed

end
